theory Spec2Isabelle
  imports Main "HOL-Library.Word"
begin

unbundle bit_operations_syntax

section \<open>Pointers and the allocation mechanism\<close>

text \<open>
  A pointer is modelled by the address it holds; the null pointer is address 0.  A
  \<^verbatim>\<open>bslma::Allocator *\<close> (a pointer to a mechanism object) is such an address.
\<close>

type_synonym addr = nat
type_synonym mech_ptr = nat

definition null :: nat where
  "null = 0"

section \<open>The default-mechanism registry\<close>

text \<open>
  Modelled from the spec: the state of \<^verbatim>\<open>bslma::Default\<close>, the Default-Mechanism
  Registry (bslma_default.h is not among the source files).  The spec names one
  observable of it, the currently installed default mechanism.
\<close>

record Default =
  current :: mech_ptr

text \<open>
  Modelled from the spec: \<^verbatim>\<open>bslma::Default::defaultAllocator()\<close>, missing from the
  source files.  The spec: \<^verbatim>\<open>current()\<close> reads the currently installed default
  mechanism.
\<close>

definition Default_defaultAllocator :: "Default \<Rightarrow> mech_ptr" where
  "Default_defaultAllocator reg = current reg"

text \<open>
  Modelled from the spec: \<^verbatim>\<open>bslma::Default::allocator(mechanism)\<close>, missing from the
  source files.  The spec: a proxy built from a mechanism reference \<open>m\<close> binds to \<open>m\<close> if
  \<open>m\<close> is non-null, else falls back to the registry's current default.
\<close>

definition Default_allocator :: "Default \<Rightarrow> mech_ptr \<Rightarrow> mech_ptr" where
  "Default_allocator reg basicAllocator =
     (if basicAllocator = null then Default_defaultAllocator reg else basicAllocator)"

section \<open>The proxy \<^verbatim>\<open>bsl::allocator<T>\<close> and its specialization for \<^verbatim>\<open>void\<close>\<close>

text \<open>
  The class template has the single data member \<^verbatim>\<open>d_mechanism\<close>.  The element type
  \<^verbatim>\<open>T\<close> is the type parameter \<open>'t\<close> of the proxy: it occurs in no field, exactly as in
  the class.  \<^verbatim>\<open>allocator<void>\<close> is a class of its own in the source and is one here.
\<close>

datatype 't allocator = Allocator (d_mechanism: mech_ptr)

datatype allocator_void = Allocator_void (d_mechanism_void: mech_ptr)

definition mechanism :: "'t allocator \<Rightarrow> mech_ptr" where
  "mechanism this = d_mechanism this"

definition mechanism_void :: "allocator_void \<Rightarrow> mech_ptr" where
  "mechanism_void this = d_mechanism_void this"

subsection \<open>Creators of \<^verbatim>\<open>allocator<T>\<close>\<close>

definition allocator_default :: "Default \<Rightarrow> 't allocator" where
  "allocator_default reg = Allocator (Default_defaultAllocator reg)"

definition allocator_from_mechanism :: "Default \<Rightarrow> mech_ptr \<Rightarrow> 't allocator" where
  "allocator_from_mechanism reg m = Allocator (Default_allocator reg m)"

definition allocator_copy :: "'t allocator \<Rightarrow> 't allocator" where
  "allocator_copy rhs = Allocator (mechanism rhs)"

text \<open>The converting constructor template, at a source element type \<open>'u\<close> and at \<^verbatim>\<open>void\<close>.\<close>

definition allocator_convert :: "'u allocator \<Rightarrow> 't allocator" where
  "allocator_convert rhs = Allocator (mechanism rhs)"

definition allocator_convert_from_void :: "allocator_void \<Rightarrow> 't allocator" where
  "allocator_convert_from_void rhs = Allocator (mechanism_void rhs)"

text \<open>The compiler-generated assignment copies the data member.\<close>

definition allocator_assign :: "'t allocator \<Rightarrow> 't allocator \<Rightarrow> 't allocator" where
  "allocator_assign this rhs = Allocator (d_mechanism rhs)"

subsection \<open>Creators of \<^verbatim>\<open>allocator<void>\<close>\<close>

definition allocator_void_default :: "Default \<Rightarrow> allocator_void" where
  "allocator_void_default reg = Allocator_void (Default_defaultAllocator reg)"

definition allocator_void_from_mechanism :: "Default \<Rightarrow> mech_ptr \<Rightarrow> allocator_void" where
  "allocator_void_from_mechanism reg m = Allocator_void (Default_allocator reg m)"

definition allocator_void_copy :: "allocator_void \<Rightarrow> allocator_void" where
  "allocator_void_copy rhs = Allocator_void (mechanism_void rhs)"

definition allocator_void_convert :: "'u allocator \<Rightarrow> allocator_void" where
  "allocator_void_convert rhs = Allocator_void (mechanism rhs)"

definition allocator_void_assign :: "allocator_void \<Rightarrow> allocator_void \<Rightarrow> allocator_void" where
  "allocator_void_assign this rhs = Allocator_void (d_mechanism_void rhs)"

subsection \<open>Free operators\<close>

text \<open>
  \<^verbatim>\<open>operator==(const allocator<T1>&, const allocator<T2>&)\<close> is one function template;
  its four instances are the choices of \<^verbatim>\<open>T1\<close> and \<^verbatim>\<open>T2\<close> between an object type and
  \<^verbatim>\<open>void\<close>, each calling the \<^verbatim>\<open>mechanism()\<close> of the class it is given.
\<close>

definition operator_eq :: "'t1 allocator \<Rightarrow> 't2 allocator \<Rightarrow> bool" where
  "operator_eq lhs rhs = (mechanism lhs = mechanism rhs)"

definition operator_eq_T_void :: "'t1 allocator \<Rightarrow> allocator_void \<Rightarrow> bool" where
  "operator_eq_T_void lhs rhs = (mechanism lhs = mechanism_void rhs)"

definition operator_eq_void_T :: "allocator_void \<Rightarrow> 't2 allocator \<Rightarrow> bool" where
  "operator_eq_void_T lhs rhs = (mechanism_void lhs = mechanism rhs)"

definition operator_eq_void_void :: "allocator_void \<Rightarrow> allocator_void \<Rightarrow> bool" where
  "operator_eq_void_void lhs rhs = (mechanism_void lhs = mechanism_void rhs)"

definition operator_ne :: "'t1 allocator \<Rightarrow> 't2 allocator \<Rightarrow> bool" where
  "operator_ne lhs rhs = (\<not> operator_eq lhs rhs)"

definition operator_eq_ptr :: "'t allocator \<Rightarrow> mech_ptr \<Rightarrow> bool" where
  "operator_eq_ptr lhs rhs = (mechanism lhs = rhs)"

definition operator_ne_ptr :: "'t allocator \<Rightarrow> mech_ptr \<Rightarrow> bool" where
  "operator_ne_ptr lhs rhs = (\<not> operator_eq_ptr lhs rhs)"

definition ptr_operator_eq :: "mech_ptr \<Rightarrow> 't allocator \<Rightarrow> bool" where
  "ptr_operator_eq lhs rhs = (lhs = mechanism rhs)"

definition ptr_operator_ne :: "mech_ptr \<Rightarrow> 't allocator \<Rightarrow> bool" where
  "ptr_operator_ne lhs rhs = (\<not> ptr_operator_eq lhs rhs)"

section \<open>Platform and build configuration\<close>

text \<open>
  Three facts are fixed outside the two source files and are parameters here:
  whether \<^verbatim>\<open>bslma::Allocator::size_type\<close> is a signed type (the source states that it
  has the width of \<^verbatim>\<open>std::size_t\<close>), whether \<^verbatim>\<open>BSLS_ASSERT_SAFE\<close> is checked in this
  build, and whether the compiler is the one for which \<^verbatim>\<open>BSLS_PLATFORM_CMP_MSVC\<close> is
  defined.  \<^verbatim>\<open>std::size_t\<close> is the word type \<open>'w word\<close>, of any width.
\<close>

record platform =
  bslma_size_type_signed :: bool
  BSLS_ASSERT_SAFE_active :: bool
  BSLS_PLATFORM_CMP_MSVC :: bool

text \<open>
  The conversion \<^verbatim>\<open>bslma::Allocator::size_type(x)\<close> of a \<^verbatim>\<open>std::size_t\<close>: the same
  bits, read in the mechanism's count type.
\<close>

definition bslma_size_type :: "platform \<Rightarrow> 'w::len word \<Rightarrow> int" where
  "bslma_size_type pf x = (if bslma_size_type_signed pf then sint x else uint x)"

section \<open>The mechanism protocol\<close>

text \<open>
  \<^verbatim>\<open>bslma::Allocator\<close> is an abstract protocol whose implementations lie outside the
  sources at hand, so its two virtual functions are parameters.  \<open>'s\<close> is the state of
  the program's memory, the mechanism objects included; the first argument is the object
  the call is dispatched on.  \<^verbatim>\<open>allocate\<close> returns an address or raises \<open>'e\<close>.
\<close>

record ('s, 'e) bslma_Allocator =
  allocate_virtual :: "mech_ptr \<Rightarrow> int \<Rightarrow> 's \<Rightarrow> ('e + addr) \<times> 's"
  deallocate_virtual :: "mech_ptr \<Rightarrow> addr \<Rightarrow> 's \<Rightarrow> 's"

section \<open>The element type\<close>

text \<open>
  What the template uses of its parameter \<^verbatim>\<open>T\<close>.
  \<^item> \<^verbatim>\<open>sizeof(T)\<close>.  It is at least 1 for every object type, so the division in
    \<^verbatim>\<open>max_size\<close> never divides by zero in the program; the theorems below hold without
    using this.
  \<^item> The placement allocation function \<^verbatim>\<open>operator new(std::size_t, void*)\<close> that \<^verbatim>\<open>T\<close>
    declares in its own scope, if any.  The new-expression of \<^verbatim>\<open>construct\<close> is not
    qualified with \<^verbatim>\<open>::\<close>, so for a class type the allocation function is looked up in
    the scope of \<^verbatim>\<open>T\<close> first and only then globally.  Given the size and the placement
    argument it raises, or returns the address at which the object is built, or (a
    non-throwing function) returns null: \<open>None\<close>, and then nothing is built.  Without
    one, the global placement form is used, which returns its argument.  (A \<^verbatim>\<open>T\<close> that
    declares some \<^verbatim>\<open>operator new\<close> but no placement form does not compile with
    \<^verbatim>\<open>construct\<close>.)
  \<^item> The matching \<^verbatim>\<open>operator delete(void*, void*)\<close> that \<^verbatim>\<open>T\<close> declares in its own
    scope, if any: it is called with the storage and the placement argument when the
    constructor raises.  The global one does nothing.
  \<^item> The copy constructor, run at the address the allocation function returned (it may
    raise), and the destructor.
  \<^item> The \<^verbatim>\<open>operator&\<close> that \<^verbatim>\<open>T\<close> declares for itself, if any (for a modifiable and
    for a \<^verbatim>\<open>const\<close> object), as a function from the object's storage address to the
    pointer it returns.
  \<open>'t\<close> is the type of the values of \<^verbatim>\<open>T\<close>.
\<close>

record (overloaded) ('s, 'e, 't, 'w) element_type =
  sizeof :: "'w::len word"
  operator_new_placement :: "('w word \<Rightarrow> addr \<Rightarrow> 's \<Rightarrow> ('e + addr option) \<times> 's) option"
  operator_delete_placement :: "(addr \<Rightarrow> addr \<Rightarrow> 's \<Rightarrow> 's) option"
  copy_constructor :: "addr \<Rightarrow> 't \<Rightarrow> 's \<Rightarrow> 'e option \<times> 's"
  destructor :: "addr \<Rightarrow> 's \<Rightarrow> 's"
  operator_address :: "(addr \<Rightarrow> addr) option"
  operator_address_const :: "(addr \<Rightarrow> addr) option"

section \<open>The address-of helper (bsls_util.h)\<close>

text \<open>
  An lvalue is modelled by the storage address of the object it designates.  The casts of
  \<^verbatim>\<open>Util::addressOf\<close> change the static type only, and the address-of operator applied
  to a \<^verbatim>\<open>const volatile char\<close> lvalue is the built-in one.
\<close>

type_synonym lvalue = addr

definition reinterpret_cast_cv_char_ref :: "lvalue \<Rightarrow> lvalue" where
  "reinterpret_cast_cv_char_ref obj = obj"

definition builtin_address_of :: "lvalue \<Rightarrow> addr" where
  "builtin_address_of obj = obj"

definition const_cast_char_ptr :: "addr \<Rightarrow> addr" where
  "const_cast_char_ptr p = p"

definition static_cast_ptr :: "addr \<Rightarrow> addr" where
  "static_cast_ptr p = p"

definition Util_addressOf :: "lvalue \<Rightarrow> addr" where
  "Util_addressOf obj =
     static_cast_ptr (static_cast_ptr
       (const_cast_char_ptr (builtin_address_of (reinterpret_cast_cv_char_ref obj))))"

text \<open>
  The expression \<^verbatim>\<open>&(OBJ)\<close>: the \<^verbatim>\<open>operator&\<close> of the object's type when it declares
  one, the built-in operator otherwise.
\<close>

definition address_of_expression :: "(addr \<Rightarrow> addr) option \<Rightarrow> lvalue \<Rightarrow> addr" where
  "address_of_expression overload obj =
     (case overload of None \<Rightarrow> builtin_address_of obj | Some f \<Rightarrow> f obj)"

definition BSLS_UTIL_ADDRESSOF :: "platform \<Rightarrow> (addr \<Rightarrow> addr) option \<Rightarrow> lvalue \<Rightarrow> addr" where
  "BSLS_UTIL_ADDRESSOF pf overload OBJ =
     (if BSLS_PLATFORM_CMP_MSVC pf then Util_addressOf OBJ
      else address_of_expression overload OBJ)"

section \<open>Manipulators and accessors of \<^verbatim>\<open>allocator<T>\<close>\<close>

definition max_size ::
  "platform \<Rightarrow> ('s, 'e, 't, 'w::len) element_type \<Rightarrow> 't allocator \<Rightarrow> 'w word" where
  "max_size pf T this =
     (let BSLMA_SIZE_IS_SIGNED = (bslma_size_type pf (NOT (0 :: 'w word)) < 0);
          MAX_NUM_BYTES = NOT (0 :: 'w word) div (if BSLMA_SIZE_IS_SIGNED then 2 else 1);
          MAX_NUM_ELEMENTS = MAX_NUM_BYTES div sizeof T
      in MAX_NUM_ELEMENTS)"

text \<open>
  A manipulator is a non-const member function: it returns, with its result and the new
  state, the proxy it was called on as the call leaves it.  \<^verbatim>\<open>BSLS_ASSERT_SAFE\<close> stops
  the program when it is checked and fails; the failure signal of the mechanism passes
  through \<^verbatim>\<open>allocate\<close> unchanged.
\<close>

datatype 'e failure = Assertion_failed | Raised 'e

definition allocate ::
  "platform \<Rightarrow> ('s, 'e) bslma_Allocator \<Rightarrow> ('s, 'e, 't, 'w::len) element_type \<Rightarrow>
   't allocator \<Rightarrow> 'w word \<Rightarrow> addr \<Rightarrow> 's \<Rightarrow> ('e failure + addr) \<times> 't allocator \<times> 's" where
  "allocate pf M T this n hint s =
     (if BSLS_ASSERT_SAFE_active pf \<and> \<not> n \<le> max_size pf T this
      then (Inl Assertion_failed, this, s)
      else (case allocate_virtual M (d_mechanism this)
                  (bslma_size_type pf (n * sizeof T)) s of
              (Inl e, s') \<Rightarrow> (Inl (Raised e), this, s')
            | (Inr p, s') \<Rightarrow> (Inr (static_cast_ptr p), this, s')))"

definition deallocate ::
  "('s, 'e) bslma_Allocator \<Rightarrow> 't allocator \<Rightarrow> addr \<Rightarrow> 'w::len word \<Rightarrow> 's \<Rightarrow>
   't allocator \<times> 's" where
  "deallocate M this p n s = (this, deallocate_virtual M (d_mechanism this) p s)"

text \<open>
  The new-expression \<^verbatim>\<open>new (placement) T(val)\<close>, not qualified with \<^verbatim>\<open>::\<close>: the
  allocation function selected for \<^verbatim>\<open>T\<close> is called with \<^verbatim>\<open>sizeof(T)\<close> and the placement
  argument, the copy constructor runs at the address it returns, and when the constructor
  raises the matching deallocation function is called before the exception goes on.
\<close>

definition placement_allocation ::
  "('s, 'e, 't, 'w::len) element_type \<Rightarrow> 'w word \<Rightarrow> addr \<Rightarrow> 's \<Rightarrow> ('e + addr option) \<times> 's" where
  "placement_allocation T bytes placement s =
     (case operator_new_placement T of
        None \<Rightarrow> (Inr (Some placement), s)
      | Some class_operator_new \<Rightarrow> class_operator_new bytes placement s)"

definition placement_deallocation ::
  "('s, 'e, 't, 'w::len) element_type \<Rightarrow> addr \<Rightarrow> addr \<Rightarrow> 's \<Rightarrow> 's" where
  "placement_deallocation T storage placement s =
     (case operator_delete_placement T of
        None \<Rightarrow> s
      | Some class_operator_delete \<Rightarrow> class_operator_delete storage placement s)"

definition new_placement_expression ::
  "('s, 'e, 't, 'w::len) element_type \<Rightarrow> addr \<Rightarrow> 't \<Rightarrow> 's \<Rightarrow> 'e option \<times> 's" where
  "new_placement_expression T placement val s =
     (case placement_allocation T (sizeof T) placement s of
        (Inl e, s1) \<Rightarrow> (Some e, s1)
      | (Inr None, s1) \<Rightarrow> (None, s1)
      | (Inr (Some storage), s1) \<Rightarrow>
          (case copy_constructor T storage val s1 of
             (None, s2) \<Rightarrow> (None, s2)
           | (Some e, s2) \<Rightarrow> (Some e, placement_deallocation T storage placement s2)))"

definition construct ::
  "('s, 'e, 't, 'w::len) element_type \<Rightarrow> 't allocator \<Rightarrow> addr \<Rightarrow> 't \<Rightarrow> 's \<Rightarrow>
   'e option \<times> 't allocator \<times> 's" where
  "construct T this p val s =
     (case new_placement_expression T (static_cast_ptr p) val s of (r, s') \<Rightarrow> (r, this, s'))"

definition destroy ::
  "('s, 'e, 't, 'w::len) element_type \<Rightarrow> 't allocator \<Rightarrow> addr \<Rightarrow> 's \<Rightarrow>
   't allocator \<times> 's" where
  "destroy T this p s = (this, destructor T p s)"

definition address ::
  "platform \<Rightarrow> ('s, 'e, 't, 'w::len) element_type \<Rightarrow> 't allocator \<Rightarrow> lvalue \<Rightarrow> addr" where
  "address pf T this x = BSLS_UTIL_ADDRESSOF pf (operator_address T) x"

definition address_const ::
  "platform \<Rightarrow> ('s, 'e, 't, 'w::len) element_type \<Rightarrow> 't allocator \<Rightarrow> lvalue \<Rightarrow> addr" where
  "address_const pf T this x = BSLS_UTIL_ADDRESSOF pf (operator_address_const T) x"

section \<open>An example mechanism and example element types\<close>

text \<open>
  The mechanism of the header's usage example, \<^verbatim>\<open>my_CountingAllocator\<close>, counts the
  blocks outstanding of each mechanism object; the global \<^verbatim>\<open>operator new\<close> it calls is a
  bump pointer here.  \<open>int_element\<close> is a four-byte type with a trivial copy constructor
  and destructor; \<open>string_element m\<close> is a type whose copy constructor obtains a buffer
  from the mechanism \<open>m\<close> and whose destructor returns it; \<open>interning_element m\<close> is a
  type whose copy constructor obtains from the mechanism \<open>m\<close> a pool entry that outlives
  the object, so that its destructor releases nothing; \<open>relocating_element\<close> declares a
  placement \<^verbatim>\<open>operator new\<close> of its own that takes storage from the bump pointer instead
  of its argument; \<open>guarded_element\<close> declares an \<^verbatim>\<open>operator&\<close> that returns a null
  pointer.  \<open>signed_safe\<close> is a platform with a
  signed mechanism count type and checked assertions, on a compiler other than MSVC.
\<close>

record counting_world =
  d_blocksOutstanding :: "mech_ptr \<Rightarrow> int"
  next_block :: addr
  objects :: "addr \<Rightarrow> int option"

definition my_CountingAllocator :: "(counting_world, unit) bslma_Allocator" where
  "my_CountingAllocator =
     \<lparr>allocate_virtual = (\<lambda>m size w.
        (Inr (next_block w),
         w\<lparr>d_blocksOutstanding := (d_blocksOutstanding w)(m := d_blocksOutstanding w m + 1),
           next_block := next_block w + nat size\<rparr>)),
      deallocate_virtual = (\<lambda>m address w.
        w\<lparr>d_blocksOutstanding := (d_blocksOutstanding w)(m := d_blocksOutstanding w m - 1)\<rparr>)\<rparr>"

definition empty_world :: counting_world where
  "empty_world = \<lparr>d_blocksOutstanding = (\<lambda>m. 0), next_block = 4096, objects = (\<lambda>p. None)\<rparr>"

definition int_element :: "(counting_world, unit, int, 64) element_type" where
  "int_element =
     \<lparr>sizeof = 4,
      operator_new_placement = None,
      operator_delete_placement = None,
      copy_constructor = (\<lambda>p val w. (None, w\<lparr>objects := (objects w)(p \<mapsto> val)\<rparr>)),
      destructor = (\<lambda>p w. w\<lparr>objects := (objects w)(p := None)\<rparr>),
      operator_address = None,
      operator_address_const = None\<rparr>"

definition signed_safe :: platform where
  "signed_safe = \<lparr>bslma_size_type_signed = True, BSLS_ASSERT_SAFE_active = True,
     BSLS_PLATFORM_CMP_MSVC = False\<rparr>"

definition string_element :: "mech_ptr \<Rightarrow> (counting_world, unit, int, 64) element_type" where
  "string_element m =
     \<lparr>sizeof = 8,
      operator_new_placement = None,
      operator_delete_placement = None,
      copy_constructor = (\<lambda>p val w.
        (case allocate_virtual my_CountingAllocator m 16 w of
           (Inl e, w') \<Rightarrow> (Some e, w')
         | (Inr buffer, w') \<Rightarrow> (None, w'\<lparr>objects := (objects w')(p \<mapsto> int buffer)\<rparr>))),
      destructor = (\<lambda>p w.
        (case objects w p of
           None \<Rightarrow> w
         | Some buffer \<Rightarrow>
             (deallocate_virtual my_CountingAllocator m (nat buffer) w)
               \<lparr>objects := (objects w)(p := None)\<rparr>)),
      operator_address = None,
      operator_address_const = None\<rparr>"

definition interning_element :: "mech_ptr \<Rightarrow> (counting_world, unit, int, 64) element_type" where
  "interning_element m =
     \<lparr>sizeof = 8,
      operator_new_placement = None,
      operator_delete_placement = None,
      copy_constructor = (\<lambda>p val w.
        (case allocate_virtual my_CountingAllocator m 16 w of
           (Inl e, w') \<Rightarrow> (Some e, w')
         | (Inr entry, w') \<Rightarrow> (None, w'\<lparr>objects := (objects w')(p \<mapsto> int entry)\<rparr>))),
      destructor = (\<lambda>p w. w\<lparr>objects := (objects w)(p := None)\<rparr>),
      operator_address = None,
      operator_address_const = None\<rparr>"

definition relocating_element :: "(counting_world, unit, int, 64) element_type" where
  "relocating_element = int_element
     \<lparr>operator_new_placement := Some (\<lambda>size placement w.
        (Inr (Some (next_block w)), w\<lparr>next_block := next_block w + unat size\<rparr>))\<rparr>"

definition guarded_element :: "(counting_world, unit, int, 64) element_type" where
  "guarded_element = int_element
     \<lparr>operator_address := Some (\<lambda>obj. null), operator_address_const := Some (\<lambda>obj. null)\<rparr>"

section \<open>Arithmetic of \<^verbatim>\<open>max_size\<close>\<close>

lemma unat_all_ones: "unat (NOT 0 :: 'w::len word) = 2 ^ LENGTH('w) - 1"
  by (simp add: unsigned_minus_1_eq_mask mask_eq_exp_minus_1)

lemma BSLMA_SIZE_IS_SIGNED_iff:
  "(bslma_size_type pf (NOT (0 :: 'w::len word)) < 0) = bslma_size_type_signed pf"
  by (simp add: bslma_size_type_def)

lemma half_all_ones:
  "unat (NOT 0 div 2 :: 'w::len word) = (2 ^ LENGTH('w) - 1) div 2"
proof -
  have split: "unat (NOT 0 div 2 :: 'w word) = unat (NOT 0 :: 'w word) div unat (2 :: 'w word)"
    by (rule unat_div)
  show ?thesis
  proof (cases "LENGTH('w) = 1")
    case True
    then have "(2 :: 'w word) = 0"
      using word_exp_length_eq_0 [where 'a = 'w] by simp
    then have "unat (2 :: 'w word) = 0" by (simp only: unat_0)
    with split True show ?thesis by (simp only: unat_all_ones) simp
  next
    case False
    then have "2 \<le> LENGTH('w)"
      using len_gt_0 [where 'a = 'w] by arith
    then have "unat (2 :: 'w word) = 2"
      by (simp add: unat_eq_nat_uint)
    with split show ?thesis by (simp only: unat_all_ones)
  qed
qed

lemma max_size_eq:
  fixes T :: "('s, 'e, 't, 'w::len) element_type"
  shows "max_size pf T this =
    (if bslma_size_type_signed pf then NOT 0 div 2 div sizeof T else NOT 0 div sizeof T)"
  unfolding max_size_def Let_def BSLMA_SIZE_IS_SIGNED_iff
  by (simp only: div_by_1 if_distrib [of "\<lambda>d. d div sizeof T"] if_distrib [of "\<lambda>d. NOT 0 div d"])

lemma unat_max_size:
  fixes T :: "('s, 'e, 't, 'w::len) element_type"
  shows "unat (max_size pf T this) =
    (2 ^ LENGTH('w) - 1) div (if bslma_size_type_signed pf then 2 else 1) div unat (sizeof T)"
proof (cases "bslma_size_type_signed pf")
  case True
  then show ?thesis
    by (simp only: max_size_eq if_True unat_div [of _ "sizeof T"] half_all_ones)
next
  case False
  then show ?thesis
    by (simp only: max_size_eq if_False unat_div [of _ "sizeof T"] unat_all_ones div_by_1)
qed

lemma product_fits:
  fixes T :: "('s, 'e, 't, 'w::len) element_type" and n :: "'w word"
  assumes "n \<le> max_size pf T this"
  shows "unat n * unat (sizeof T)
    \<le> (2 ^ LENGTH('w) - 1) div (if bslma_size_type_signed pf then 2 else 1)"
proof -
  let ?B = "(2 ^ LENGTH('w) - 1) div (if bslma_size_type_signed pf then 2 else 1) :: nat"
  from assms have le: "unat n \<le> ?B div unat (sizeof T)"
    by (simp only: word_le_nat_alt unat_max_size)
  then have "unat n * unat (sizeof T) \<le> (?B div unat (sizeof T)) * unat (sizeof T)"
    by (rule mult_le_mono1)
  also have "\<dots> \<le> ?B"
    by (rule div_times_less_eq_dividend)
  finally show ?thesis .
qed

lemma product_no_wrap:
  fixes T :: "('s, 'e, 't, 'w::len) element_type" and n :: "'w word"
  assumes "n \<le> max_size pf T this"
  shows "unat (n * sizeof T) = unat n * unat (sizeof T)"
proof -
  have "(2 ^ LENGTH('w) - 1) div (if bslma_size_type_signed pf then 2 else 1)
      \<le> (2 ^ LENGTH('w) - 1 :: nat)"
    by (rule div_le_dividend)
  with product_fits [OF assms]
  have "unat n * unat (sizeof T) \<le> 2 ^ LENGTH('w) - 1"
    by (rule le_trans)
  moreover have "(0::nat) < 2 ^ LENGTH('w)" by simp
  ultimately have "unat n * unat (sizeof T) < 2 ^ LENGTH('w)"
    by arith
  then show ?thesis by (simp only: unat_mult_lem)
qed

lemma sint_small:
  fixes x :: "'w::len word"
  assumes "unat x \<le> (2 ^ LENGTH('w) - 1) div 2"
  shows "sint x = int (unat x)"
proof -
  obtain k where k: "LENGTH('w) = Suc k"
    using len_gt_0 [where 'a = 'w] by (cases "LENGTH('w)") auto
  have "(0::nat) < 2 ^ k" by simp
  then have "(2 * 2 ^ k - 1) div 2 < (2::nat) ^ k"
    by arith
  with assms have "unat x < 2 ^ k" by (simp add: k)
  then have "int (unat x) < int (2 ^ k)"
    by (simp only: of_nat_less_iff)
  then have "uint x < 2 ^ k"
    by simp
  moreover have "- (2 ^ k) \<le> uint x"
  proof -
    have "(0::int) \<le> 2 ^ k" by simp
    moreover have "0 \<le> uint x" by simp
    ultimately show ?thesis by arith
  qed
  ultimately have "signed_take_bit k (uint x) = uint x"
    by (simp add: signed_take_bit_int_eq_self)
  then show ?thesis by (simp add: sint_uint k)
qed

lemma bslma_size_type_product:
  fixes T :: "('s, 'e, 't, 'w::len) element_type" and n :: "'w word"
  assumes "n \<le> max_size pf T this"
  shows "bslma_size_type pf (n * sizeof T) = int (unat n * unat (sizeof T))"
proof (cases "bslma_size_type_signed pf")
  case True
  with product_fits [OF assms]
  have "unat (n * sizeof T) \<le> (2 ^ LENGTH('w) - 1) div 2"
    by (simp add: product_no_wrap [OF assms])
  then have "sint (n * sizeof T) = int (unat (n * sizeof T))"
    by (rule sint_small)
  with True show ?thesis
    by (simp add: bslma_size_type_def product_no_wrap [OF assms])
next
  case False
  have "uint (n * sizeof T) = int (unat (n * sizeof T))"
    by simp
  with False show ?thesis
    by (simp only: bslma_size_type_def product_no_wrap [OF assms] if_False)
qed

section \<open>Equality is identity of the mechanism\<close>

text \<open>
  Claim C1.  Two proxies, over any two element types (an object type or \<^verbatim>\<open>void\<close> on
  either side), compare equal exactly when their \<^verbatim>\<open>mechanism()\<close> pointers are the same
  pointer.
\<close>

theorem operator_eq_iff_same_mechanism:
  fixes a :: "'t1 allocator" and b :: "'t2 allocator"
    and av :: allocator_void and bv :: allocator_void
  shows "operator_eq a b = (mechanism a = mechanism b)
    \<and> operator_eq_T_void a bv = (mechanism a = mechanism_void bv)
    \<and> operator_eq_void_T av b = (mechanism_void av = mechanism b)
    \<and> operator_eq_void_void av bv = (mechanism_void av = mechanism_void bv)"
  by (simp add: operator_eq_def operator_eq_T_void_def operator_eq_void_T_def
      operator_eq_void_void_def)

section \<open>Construction\<close>

text \<open>
  Claim C2.  A proxy constructed from a mechanism pointer \<open>m\<close> has \<^verbatim>\<open>mechanism() == m\<close>
  when \<open>m\<close> is not null, and is bound to the registry's current default mechanism when
  \<open>m\<close> is null; a default-constructed proxy is bound to the current default mechanism
  too.  The same holds for \<^verbatim>\<open>allocator<void>\<close>.
\<close>

theorem construct_from_mechanism_binds:
  fixes reg :: Default and m :: mech_ptr
  shows "(m \<noteq> null \<longrightarrow>
        mechanism (allocator_from_mechanism reg m :: 't allocator) = m
      \<and> mechanism_void (allocator_void_from_mechanism reg m) = m)
    \<and> mechanism (allocator_from_mechanism reg null :: 't allocator) = current reg
    \<and> mechanism_void (allocator_void_from_mechanism reg null) = current reg
    \<and> mechanism (allocator_default reg :: 't allocator) = current reg
    \<and> mechanism_void (allocator_void_default reg) = current reg"
  by (simp add: allocator_from_mechanism_def allocator_void_from_mechanism_def
      allocator_default_def allocator_void_default_def Default_allocator_def
      Default_defaultAllocator_def mechanism_def mechanism_void_def)

theorem construct_from_mechanism_binds_witness:
  "(7::nat) \<noteq> null
    \<and> mechanism (allocator_from_mechanism \<lparr>current = 3\<rparr> 7 :: unit allocator) = 7
    \<and> mechanism_void (allocator_void_from_mechanism \<lparr>current = 3\<rparr> 7) = 7
    \<and> mechanism (allocator_from_mechanism \<lparr>current = 3\<rparr> null :: unit allocator) = 3
    \<and> mechanism (allocator_default \<lparr>current = 3\<rparr> :: unit allocator) = 3"
proof -
  have h: "(7::nat) \<noteq> null" by (simp add: null_def)
  show ?thesis
    using h construct_from_mechanism_binds [where 't = unit, of 7 "\<lparr>current = 3\<rparr>"]
    by simp
qed

text \<open>
  Claim C3.  Copy construction and converting construction, from a proxy over any element
  type and between \<^verbatim>\<open>allocator<T>\<close> and \<^verbatim>\<open>allocator<void>\<close>, bind the new proxy to
  the mechanism of the source: the new proxy's \<^verbatim>\<open>mechanism()\<close> is the source's, the two
  compare equal, and converting from \<^verbatim>\<open>T\<close> to \<^verbatim>\<open>U\<close> (or to \<^verbatim>\<open>void\<close>) and back
  gives a proxy equal to the original.
\<close>

theorem copy_and_convert_preserve_mechanism:
  fixes a :: "'t allocator" and av :: allocator_void
  shows "mechanism (allocator_copy a) = mechanism a
    \<and> operator_eq (allocator_copy a) a
    \<and> mechanism (allocator_convert a :: 'u allocator) = mechanism a
    \<and> operator_eq (allocator_convert a :: 'u allocator) a
    \<and> mechanism_void (allocator_void_convert a) = mechanism a
    \<and> operator_eq_void_T (allocator_void_convert a) a
    \<and> mechanism (allocator_convert_from_void av :: 't allocator) = mechanism_void av
    \<and> operator_eq_T_void (allocator_convert_from_void av :: 't allocator) av
    \<and> mechanism_void (allocator_void_copy av) = mechanism_void av
    \<and> operator_eq_void_void (allocator_void_copy av) av
    \<and> operator_eq (allocator_convert (allocator_convert a :: 'u allocator) :: 't allocator) a
    \<and> (allocator_convert (allocator_convert a :: 'u allocator) :: 't allocator) = a
    \<and> operator_eq (allocator_convert_from_void (allocator_void_convert a) :: 't allocator) a
    \<and> (allocator_convert_from_void (allocator_void_convert a) :: 't allocator) = a"
  by (cases a; cases av)
    (simp add: allocator_copy_def allocator_convert_def allocator_void_convert_def
      allocator_convert_from_void_def allocator_void_copy_def operator_eq_def
      operator_eq_void_T_def operator_eq_T_void_def operator_eq_void_void_def
      mechanism_def mechanism_void_def)

section \<open>The value of \<^verbatim>\<open>max_size\<close>\<close>

text \<open>
  Claim C4.  For an element of size \<open>s\<close>, \<^verbatim>\<open>max_size()\<close> is \<^verbatim>\<open>(~0)/s\<close> computed in
  \<^verbatim>\<open>std::size_t\<close>, halved when the mechanism's count type is signed; as a number it is
  \<open>(2 ^ N - 1) div s\<close>, halved in the signed case.  For a one-byte element it is the
  largest \<^verbatim>\<open>std::size_t\<close>, or half of it when the mechanism's count type is signed.
\<close>

theorem max_size_formula:
  fixes T :: "('s, 'e, 't, 'w::len) element_type"
  shows "max_size pf T this =
      (if bslma_size_type_signed pf then NOT 0 div sizeof T div 2 else NOT 0 div sizeof T)
    \<and> unat (max_size pf T this) =
      (if bslma_size_type_signed pf then (2 ^ LENGTH('w) - 1) div unat (sizeof T) div 2
       else (2 ^ LENGTH('w) - 1) div unat (sizeof T))
    \<and> unat (max_size pf (T\<lparr>sizeof := 1\<rparr>) this) =
      (if bslma_size_type_signed pf then (2 ^ LENGTH('w) - 1) div 2 else 2 ^ LENGTH('w) - 1)"
proof -
  have swap: "a div b div c = a div c div b" for a b c :: nat
    by (simp add: div_mult2_eq [symmetric] mult.commute)
  have nat_form: "unat (max_size pf T this) =
      (if bslma_size_type_signed pf then (2 ^ LENGTH('w) - 1) div unat (sizeof T) div 2
       else (2 ^ LENGTH('w) - 1) div unat (sizeof T))"
    by (simp add: unat_max_size swap)
  have "unat (NOT 0 div 2 div sizeof T) = unat (NOT 0 div sizeof T div 2)"
    by (simp only: unat_div swap)
  then have "NOT 0 div 2 div sizeof T = NOT 0 div sizeof T div 2"
    by (simp only: word_unat_eq_iff)
  then have word_form: "max_size pf T this =
      (if bslma_size_type_signed pf then NOT 0 div sizeof T div 2 else NOT 0 div sizeof T)"
    by (simp only: max_size_eq)
  have one: "unat (max_size pf (T\<lparr>sizeof := 1\<rparr>) this) =
      (if bslma_size_type_signed pf then (2 ^ LENGTH('w) - 1) div 2 else 2 ^ LENGTH('w) - 1)"
    by (simp add: unat_max_size)
  from word_form nat_form one show ?thesis by (intro conjI)
qed

section \<open>Allocation\<close>

text \<open>
  Claim C5.  When \<open>n \<le> max_size()\<close>, \<^verbatim>\<open>allocate(n)\<close> calls the mechanism's
  \<^verbatim>\<open>allocate\<close> on the proxy's mechanism with exactly the byte count \<open>n * sizeof(T)\<close>
  (the product of the two numbers, as a value of the mechanism's count type), and returns
  what the mechanism returns: its address as a pointer to \<^verbatim>\<open>T\<close>, or its failure.
\<close>

theorem allocate_forwards_byte_count:
  fixes T :: "('s, 'e, 't, 'w::len) element_type" and n :: "'w word"
  assumes "n \<le> max_size pf T this"
  shows "allocate pf M T this n hint s =
     (case allocate_virtual M (mechanism this) (int (unat n * unat (sizeof T))) s of
        (Inl e, s') \<Rightarrow> (Inl (Raised e), this, s')
      | (Inr p, s') \<Rightarrow> (Inr p, this, s'))"
  using assms
  by (simp add: allocate_def bslma_size_type_product mechanism_def static_cast_ptr_def
      split: prod.splits sum.splits)

theorem allocate_forwards_byte_count_witness:
  "(5 :: 64 word) \<le> max_size signed_safe int_element (Allocator 1)
    \<and> fst (allocate signed_safe my_CountingAllocator int_element (Allocator 1) 5 null empty_world)
        = Inr 4096
    \<and> next_block (snd (snd
        (allocate signed_safe my_CountingAllocator int_element (Allocator 1) 5 null empty_world)))
        = 4096 + 20
    \<and> d_blocksOutstanding (snd (snd
        (allocate signed_safe my_CountingAllocator int_element (Allocator 1) 5 null empty_world))) 1
        = 1"
proof -
  have h: "(5 :: 64 word) \<le> max_size signed_safe int_element (Allocator 1)"
    by (simp add: max_size_eq signed_safe_def int_element_def)
  show ?thesis
    using h allocate_forwards_byte_count [OF h, of my_CountingAllocator null empty_world]
    by (simp add: my_CountingAllocator_def empty_world_def int_element_def mechanism_def)
qed

text \<open>
  Claim C6.  When \<open>n \<le> max_size()\<close>, the product \<open>n * sizeof(T)\<close> of the two numbers is
  below \<open>2 ^ N\<close>, and below \<open>2 ^ (N - 1)\<close> when the mechanism's count type is signed: the
  multiplication in \<^verbatim>\<open>std::size_t\<close> does not wrap, the value handed to the mechanism is
  that product and is not negative, and the assertion of \<^verbatim>\<open>allocate\<close> does not fail.
\<close>

theorem max_size_prevents_overflow:
  fixes T :: "('s, 'e, 't, 'w::len) element_type" and n :: "'w word"
  assumes "n \<le> max_size pf T this"
  shows "unat n * unat (sizeof T)
        < (if bslma_size_type_signed pf then 2 ^ (LENGTH('w) - 1) else 2 ^ LENGTH('w))
    \<and> unat (n * sizeof T) = unat n * unat (sizeof T)
    \<and> bslma_size_type pf (n * sizeof T) = int (unat n * unat (sizeof T))
    \<and> 0 \<le> bslma_size_type pf (n * sizeof T)
    \<and> fst (allocate pf M T this n hint s) \<noteq> Inl Assertion_failed"
proof -
  obtain k where k: "LENGTH('w) = Suc k"
    using len_gt_0 [where 'a = 'w] by (cases "LENGTH('w)") auto
  have pos: "(0::nat) < 2 ^ k" by simp
  have bound: "unat n * unat (sizeof T)
        < (if bslma_size_type_signed pf then 2 ^ (LENGTH('w) - 1) else 2 ^ LENGTH('w))"
  proof (cases "bslma_size_type_signed pf")
    case True
    with product_fits [OF assms]
    have "unat n * unat (sizeof T) \<le> (2 * 2 ^ k - 1) div 2" by (simp add: k)
    with pos have "unat n * unat (sizeof T) < 2 ^ k" by arith
    with True show ?thesis by (simp add: k)
  next
    case False
    with product_fits [OF assms]
    have "unat n * unat (sizeof T) \<le> 2 * 2 ^ k - 1" by (simp add: k)
    with pos have "unat n * unat (sizeof T) < 2 * 2 ^ k" by arith
    with False show ?thesis by (simp add: k)
  qed
  have count: "bslma_size_type pf (n * sizeof T) = int (unat n * unat (sizeof T))"
    using assms by (rule bslma_size_type_product)
  have nonneg: "0 \<le> bslma_size_type pf (n * sizeof T)"
    by (simp only: count of_nat_0_le_iff)
  have passes: "fst (allocate pf M T this n hint s) \<noteq> Inl Assertion_failed"
    using assms by (simp add: allocate_def split: prod.splits sum.splits)
  from bound product_no_wrap [OF assms] count nonneg passes show ?thesis
    by (intro conjI)
qed

theorem max_size_prevents_overflow_witness:
  "(5 :: 64 word) \<le> max_size signed_safe int_element (Allocator 1)
    \<and> unat (5 :: 64 word) * unat (sizeof int_element) < 2 ^ 63
    \<and> bslma_size_type signed_safe (5 * sizeof int_element) = 20
    \<and> fst (allocate signed_safe my_CountingAllocator int_element (Allocator 1) 5 null empty_world)
        \<noteq> Inl Assertion_failed"
proof -
  have h: "(5 :: 64 word) \<le> max_size signed_safe int_element (Allocator 1)"
    by (simp add: max_size_eq signed_safe_def int_element_def)
  show ?thesis
    using h max_size_prevents_overflow [OF h, of my_CountingAllocator null empty_world]
    by (simp add: signed_safe_def int_element_def)
qed

text \<open>
  Claim C10.  \<^verbatim>\<open>allocate\<close> does not depend on its hint: with the same proxy, count,
  mechanism and state, two calls with any two hints make the same call on the mechanism
  and have the same result and final state.
\<close>

theorem allocate_ignores_hint:
  "allocate pf M T this n hint1 s = allocate pf M T this n hint2 s"
  by (simp add: allocate_def)

section \<open>The mechanism is never null\<close>

text \<open>
  Claim C7.  Provided the registry's default mechanism is not null: the default
  constructor and the constructor from a mechanism pointer (null or not) give a proxy
  whose \<^verbatim>\<open>mechanism()\<close> is not null; the copy constructor, the converting constructors
  and whole-object assignment give one from a source whose \<^verbatim>\<open>mechanism()\<close> is not
  null; and \<^verbatim>\<open>allocate\<close>, \<^verbatim>\<open>deallocate\<close>, \<^verbatim>\<open>construct\<close> and \<^verbatim>\<open>destroy\<close> leave a
  proxy whose \<^verbatim>\<open>mechanism()\<close> is not null as it was.
\<close>

theorem mechanism_never_null:
  fixes reg :: Default and m :: mech_ptr
    and a :: "'t allocator" and b :: "'u allocator" and this :: "'t allocator"
    and av :: allocator_void and this_void :: allocator_void
    and T :: "('s, 'e, 't, 'w::len) element_type" and M :: "('s, 'e) bslma_Allocator"
    and n :: "'w word"
  assumes "current reg \<noteq> null" and "mechanism a \<noteq> null" and "mechanism b \<noteq> null"
    and "mechanism_void av \<noteq> null"
  shows "mechanism (allocator_default reg :: 't allocator) \<noteq> null
    \<and> mechanism (allocator_from_mechanism reg m :: 't allocator) \<noteq> null
    \<and> mechanism_void (allocator_void_default reg) \<noteq> null
    \<and> mechanism_void (allocator_void_from_mechanism reg m) \<noteq> null
    \<and> mechanism (allocator_copy a) \<noteq> null
    \<and> mechanism (allocator_convert b :: 't allocator) \<noteq> null
    \<and> mechanism_void (allocator_void_convert b) \<noteq> null
    \<and> mechanism (allocator_convert_from_void av :: 't allocator) \<noteq> null
    \<and> mechanism_void (allocator_void_copy av) \<noteq> null
    \<and> mechanism (allocator_assign this a) \<noteq> null
    \<and> mechanism_void (allocator_void_assign this_void av) \<noteq> null
    \<and> mechanism (fst (snd (allocate pf M T a n hint s))) \<noteq> null
    \<and> mechanism (fst (deallocate M a p n s)) \<noteq> null
    \<and> mechanism (fst (snd (construct T a p v s))) \<noteq> null
    \<and> mechanism (fst (destroy T a p s)) \<noteq> null"
proof -
  have creators: "mechanism (allocator_default reg :: 't allocator) \<noteq> null"
    "mechanism (allocator_from_mechanism reg m :: 't allocator) \<noteq> null"
    "mechanism_void (allocator_void_default reg) \<noteq> null"
    "mechanism_void (allocator_void_from_mechanism reg m) \<noteq> null"
    using assms(1)
    by (simp_all add: allocator_default_def allocator_from_mechanism_def
        allocator_void_default_def allocator_void_from_mechanism_def
        Default_allocator_def Default_defaultAllocator_def mechanism_def mechanism_void_def)
  have copies: "mechanism (allocator_copy a) \<noteq> null"
    "mechanism (allocator_convert b :: 't allocator) \<noteq> null"
    "mechanism_void (allocator_void_convert b) \<noteq> null"
    "mechanism (allocator_convert_from_void av :: 't allocator) \<noteq> null"
    "mechanism_void (allocator_void_copy av) \<noteq> null"
    "mechanism (allocator_assign this a) \<noteq> null"
    "mechanism_void (allocator_void_assign this_void av) \<noteq> null"
    using assms(2-4)
    by (simp_all add: allocator_copy_def allocator_convert_def allocator_void_convert_def
        allocator_convert_from_void_def allocator_void_copy_def allocator_assign_def
        allocator_void_assign_def mechanism_def mechanism_void_def)
  have "fst (snd (allocate pf M T a n hint s)) = a"
    by (simp add: allocate_def split: prod.splits sum.splits)
  moreover have "fst (deallocate M a p n s) = a"
    by (simp add: deallocate_def)
  moreover have "fst (snd (construct T a p v s)) = a"
    by (simp add: construct_def split: prod.splits)
  moreover have "fst (destroy T a p s) = a"
    by (simp add: destroy_def)
  ultimately have manipulators:
    "mechanism (fst (snd (allocate pf M T a n hint s))) \<noteq> null"
    "mechanism (fst (deallocate M a p n s)) \<noteq> null"
    "mechanism (fst (snd (construct T a p v s))) \<noteq> null"
    "mechanism (fst (destroy T a p s)) \<noteq> null"
    using assms(2) by simp_all
  from creators copies manipulators show ?thesis by (intro conjI)
qed

theorem mechanism_never_null_witness:
  "current \<lparr>current = 3\<rparr> \<noteq> null
    \<and> mechanism (Allocator 5 :: int allocator) \<noteq> null
    \<and> mechanism (Allocator 6 :: unit allocator) \<noteq> null
    \<and> mechanism_void (Allocator_void 7) \<noteq> null
    \<and> mechanism (allocator_from_mechanism \<lparr>current = 3\<rparr> null :: int allocator) \<noteq> null
    \<and> mechanism (allocator_convert (Allocator 6 :: unit allocator) :: int allocator) \<noteq> null
    \<and> mechanism (fst (snd (allocate signed_safe my_CountingAllocator int_element
          (Allocator 5) 2 null empty_world))) \<noteq> null
    \<and> mechanism (fst (deallocate my_CountingAllocator (Allocator 5 :: int allocator)
          4096 (2 :: 64 word) empty_world)) \<noteq> null"
proof -
  have h: "current \<lparr>current = 3\<rparr> \<noteq> null" "mechanism (Allocator 5 :: int allocator) \<noteq> null"
    "mechanism (Allocator 6 :: unit allocator) \<noteq> null" "mechanism_void (Allocator_void 7) \<noteq> null"
    by (simp_all add: null_def mechanism_def mechanism_void_def)
  show ?thesis
    using h mechanism_never_null [OF h, where m = null and this = "Allocator 5"
        and this_void = "Allocator_void 7" and pf = signed_safe and M = my_CountingAllocator
        and T = int_element and n = 2 and hint = null and s = empty_world and p = 4096
        and v = 0]
    by simp
qed

section \<open>Construction and destruction of elements\<close>

lemma construct_keeps_proxy: "fst (snd (construct T this p v s)) = this"
  by (simp add: construct_def split: prod.splits)

lemma new_placement_expression_global:
  assumes "operator_new_placement T = None" and "operator_delete_placement T = None"
  shows "new_placement_expression T p v s = copy_constructor T p v s"
  using assms
  by (cases "copy_constructor T p v s")
    (simp add: new_placement_expression_def placement_allocation_def
      placement_deallocation_def split: option.splits)

text \<open>
  Claim C8, amended.  \<^verbatim>\<open>construct\<close> and \<^verbatim>\<open>destroy\<close> leave the proxy bound to the
  mechanism it was bound to, for every element type.  For an element type that declares no
  placement \<^verbatim>\<open>operator new\<close> or \<^verbatim>\<open>operator delete\<close> of its own, \<^verbatim>\<open>construct(p, v)\<close>
  followed by \<^verbatim>\<open>destroy(p)\<close> makes no call on the mechanism of its own: \<^verbatim>\<open>construct\<close>
  is exactly the copy constructor of \<^verbatim>\<open>T\<close> run at \<open>p\<close>, \<^verbatim>\<open>destroy\<close> is exactly the
  destructor of \<^verbatim>\<open>T\<close> run at \<open>p\<close>, and the pair leaves the accounting \<open>acct\<close> of the
  mechanism unchanged exactly when the copy constructor of \<^verbatim>\<open>T\<close> at \<open>p\<close> followed by its
  destructor at \<open>p\<close> does (as for a type whose destructor releases what its copy
  constructor allocated).
\<close>

theorem construct_destroy_frame:
  fixes T :: "('s, 'e, 't, 'w::len) element_type" and acct :: "'s \<Rightarrow> 'x"
  shows "mechanism (fst (snd (construct T this p v s))) = mechanism this
    \<and> destroy T this p s' = (this, destructor T p s')
    \<and> (operator_new_placement T = None \<and> operator_delete_placement T = None \<longrightarrow>
        construct T this p v s
          = (fst (copy_constructor T p v s), this, snd (copy_constructor T p v s))
      \<and> snd (destroy T this p (snd (snd (construct T this p v s))))
          = destructor T p (snd (copy_constructor T p v s))
      \<and> (acct (snd (destroy T this p (snd (snd (construct T this p v s))))) = acct s)
          = (acct (destructor T p (snd (copy_constructor T p v s))) = acct s))"
proof -
  have binding: "mechanism (fst (snd (construct T this p v s))) = mechanism this"
    by (simp only: construct_keeps_proxy)
  have dtor: "destroy T this p s' = (this, destructor T p s')"
    by (simp add: destroy_def)
  have pair: "construct T this p v s
          = (fst (copy_constructor T p v s), this, snd (copy_constructor T p v s))
      \<and> snd (destroy T this p (snd (snd (construct T this p v s))))
          = destructor T p (snd (copy_constructor T p v s))
      \<and> (acct (snd (destroy T this p (snd (snd (construct T this p v s))))) = acct s)
          = (acct (destructor T p (snd (copy_constructor T p v s))) = acct s)"
    if "operator_new_placement T = None" and "operator_delete_placement T = None"
    using that
    by (simp add: construct_def destroy_def static_cast_ptr_def
        new_placement_expression_global split: prod.splits)
  from binding dtor pair show ?thesis by blast
qed

theorem construct_destroy_frame_witness:
  "operator_new_placement (string_element 1) = None
    \<and> operator_delete_placement (string_element 1) = None
    \<and> construct (string_element 1) (Allocator 1) 8192 7 empty_world
        = (fst (copy_constructor (string_element 1) 8192 7 empty_world), Allocator 1,
           snd (copy_constructor (string_element 1) 8192 7 empty_world))
    \<and> d_blocksOutstanding
        (snd (destroy (string_element 1) (Allocator 1) 8192
          (snd (snd (construct (string_element 1) (Allocator 1) 8192 7 empty_world))))) 1
        = d_blocksOutstanding empty_world 1
    \<and> mechanism (fst (snd (construct (string_element 1) (Allocator 1) 8192 7 empty_world))) = 1"
proof -
  have h: "operator_new_placement (string_element 1) = None
      \<and> operator_delete_placement (string_element 1) = None"
    by (simp add: string_element_def)
  have net: "d_blocksOutstanding (destructor (string_element 1) 8192
      (snd (copy_constructor (string_element 1) 8192 7 empty_world))) 1
      = d_blocksOutstanding empty_world 1"
    by (simp add: string_element_def my_CountingAllocator_def empty_world_def)
  show ?thesis
    using h net construct_destroy_frame [where T = "string_element 1"
        and acct = "\<lambda>w. d_blocksOutstanding w 1" and this = "Allocator 1" and p = 8192
        and v = 7 and s = empty_world]
    by (simp add: mechanism_def)
qed

text \<open>
  As stated for every element type, C8 fails.  For \<open>string_element\<close>, whose copy
  constructor allocates from the mechanism the proxy is bound to, \<^verbatim>\<open>construct\<close> raises
  the number of blocks outstanding of that mechanism from 0 to 1, and \<^verbatim>\<open>destroy\<close> makes
  the call that brings it back to 0.  For \<open>interning_element\<close>, whose destructor does not
  release what its copy constructor allocated, the number is 0 before the pair and 1 after
  it.  The header says of \<^verbatim>\<open>construct\<close> and \<^verbatim>\<open>destroy\<close> only that they do not
  \<^emph>\<open>directly\<close> allocate or deallocate memory.
\<close>

theorem construct_allocates_counterexample:
  "d_blocksOutstanding empty_world 1 = 0
   \<and> mechanism (Allocator 1 :: int allocator) = 1
   \<and> d_blocksOutstanding
        (snd (snd (construct (string_element 1) (Allocator 1) 8192 7 empty_world))) 1 = 1
   \<and> d_blocksOutstanding
        (snd (destroy (string_element 1) (Allocator 1) 8192
          (snd (snd (construct (string_element 1) (Allocator 1) 8192 7 empty_world))))) 1 = 0
   \<and> d_blocksOutstanding
        (snd (snd (construct (interning_element 1) (Allocator 1) 8192 7 empty_world))) 1 = 1
   \<and> d_blocksOutstanding
        (snd (destroy (interning_element 1) (Allocator 1) 8192
          (snd (snd (construct (interning_element 1) (Allocator 1) 8192 7 empty_world))))) 1 = 1"
  by (simp add: construct_def destroy_def new_placement_expression_def
      placement_allocation_def string_element_def interning_element_def
      my_CountingAllocator_def empty_world_def static_cast_ptr_def mechanism_def)

text \<open>
  The header documents \<^verbatim>\<open>construct\<close> as copy-constructing the object at the address
  \<open>p\<close>.  For an element type with a placement \<^verbatim>\<open>operator new\<close> of its own the
  unqualified new-expression does not: for \<open>relocating_element\<close> the object is built at the
  address that operator returns, 4096, and nothing is built at \<open>p\<close>, 8192.
\<close>

lemma construct_class_scope_operator_new:
  "objects (snd (snd (construct relocating_element (Allocator 1) 8192 7 empty_world))) 8192
      = None
   \<and> objects (snd (snd (construct relocating_element (Allocator 1) 8192 7 empty_world))) 4096
      = Some 7"
  by (simp add: construct_def new_placement_expression_def placement_allocation_def
      relocating_element_def int_element_def empty_world_def static_cast_ptr_def)

section \<open>The address of an element\<close>

text \<open>
  Claim C9, amended.  \<^verbatim>\<open>Util::addressOf\<close> returns the storage address of its argument,
  for every object type.  \<^verbatim>\<open>address(x)\<close> uses it, and so returns the storage address of
  \<open>x\<close> for every element type, where \<^verbatim>\<open>BSLS_PLATFORM_CMP_MSVC\<close> is defined; elsewhere
  \<^verbatim>\<open>address(x)\<close> is the expression \<^verbatim>\<open>&x\<close>: the storage address of \<open>x\<close> for a type
  that does not declare \<^verbatim>\<open>operator&\<close>, and what that operator returns for a type that
  does.
\<close>

theorem address_formula:
  fixes T :: "('s, 'e, 't, 'w::len) element_type"
  shows "Util_addressOf x = x
    \<and> address pf T this x =
        (if BSLS_PLATFORM_CMP_MSVC pf then x
         else case operator_address T of None \<Rightarrow> x | Some f \<Rightarrow> f x)
    \<and> address_const pf T this x =
        (if BSLS_PLATFORM_CMP_MSVC pf then x
         else case operator_address_const T of None \<Rightarrow> x | Some f \<Rightarrow> f x)"
  by (simp add: address_def address_const_def BSLS_UTIL_ADDRESSOF_def Util_addressOf_def
      address_of_expression_def static_cast_ptr_def const_cast_char_ptr_def
      builtin_address_of_def reinterpret_cast_cv_char_ref_def split: option.splits)

text \<open>
  As stated for every platform, C9 fails: where \<^verbatim>\<open>BSLS_PLATFORM_CMP_MSVC\<close> is not
  defined, \<^verbatim>\<open>address\<close> of an object of \<open>guarded_element\<close> stored at 4096 is the null
  pointer its \<^verbatim>\<open>operator&\<close> returns.
\<close>

theorem address_overloaded_counterexample:
  "address signed_safe guarded_element (Allocator 1) 4096 \<noteq> 4096
   \<and> address signed_safe guarded_element (Allocator 1) 4096 = null"
  by (simp add: address_def BSLS_UTIL_ADDRESSOF_def address_of_expression_def
      guarded_element_def signed_safe_def null_def)

end
